theory Spec2Isabelle
  imports Main
begin

section \<open>Dates\<close>

text \<open>
  A timestamp is the time value of a JavaScript \<^verbatim>\<open>Date\<close>: milliseconds since
  1970-01-01T00:00:00Z, an \<^typ>\<open>int\<close>. The invalid date (\<^verbatim>\<open>NaN\<close>) is not a
  timestamp; where the source can produce it the model uses \<^typ>\<open>int option\<close>.
\<close>

definition msPerDay :: int where
  "msPerDay = 86400000"

text \<open>
  \<^verbatim>\<open>new Date(t).toISOString().slice(0, 10)\<close> is the text \<^verbatim>\<open>YYYY-MM-DD\<close> of the UTC
  calendar day of \<^verbatim>\<open>t\<close>. The text is represented by the number of the day it names
  (days since 1970-01-01): for the four-digit years of layer data (0000 to 9999) a day
  and its text determine each other.
\<close>

type_synonym dayString = int

definition toISODateString :: "int \<Rightarrow> dayString" where
  "toISODateString t = t div msPerDay"

text \<open>\<^verbatim>\<open>new Date(dateString)\<close> on a date-only text: midnight UTC of that day.\<close>

definition newDateOfDayString :: "dayString \<Rightarrow> int" where
  "newDateOfDayString k = k * msPerDay"

text \<open>\<^verbatim>\<open>d.setUTCHours(12, 0, 0, 0)\<close>: midday UTC of the UTC day of \<^verbatim>\<open>d\<close>.\<close>

definition setUTCHours12 :: "int \<Rightarrow> int" where
  "setUTCHours12 t = (t div msPerDay) * msPerDay + 12 * 3600000"

section \<open>Layers\<close>

datatype layerKind =
  boundary | wms | admin_level_data | static_raster | composite | point_data | impact

record dateItem =
  displayDate :: int

text \<open>
  The fields of a layer that the hook reads. \<open>dates\<close> is the optional static date list
  (\<open>None\<close> when the property is absent), \<open>dateLayer\<close> the companion date source of
  a composite layer.
\<close>

record layer =
  layerId :: string
  layerType :: layerKind
  title :: string
  dates :: "int list option"
  dateLayer :: "string option"

text \<open>
  The server's table of available dates is an object from layer ids to DateItem arrays:
  an association list, read with \<^const>\<open>map_of\<close>.
\<close>

type_synonym availableDates = "(string \<times> dateItem list) list"

definition hasKey :: "string \<Rightarrow> availableDates \<Rightarrow> bool" where
  "hasKey k table = (k \<in> set (map fst table))"

section \<open>lodash: countBy and pickBy\<close>

text \<open>
  \<^verbatim>\<open>countBy\<close> builds an object whose keys are the values met, each with the number
  of its occurrences; a new key is added after the existing ones, so \<^verbatim>\<open>Object.keys\<close>
  lists the keys in the order of their first occurrence.
\<close>

fun countBy_add :: "'k \<Rightarrow> ('k \<times> nat) list \<Rightarrow> ('k \<times> nat) list" where
  "countBy_add k [] = [(k, 1)]"
| "countBy_add k ((k', n) # rest) =
     (if k = k' then (k', n + 1) # rest else (k', n) # countBy_add k rest)"

definition countBy :: "'k list \<Rightarrow> ('k \<times> nat) list" where
  "countBy xs = foldl (\<lambda>obj k. countBy_add k obj) [] xs"

definition pickBy :: "('k \<times> 'v) list \<Rightarrow> ('v \<Rightarrow> bool) \<Rightarrow> ('k \<times> 'v) list" where
  "pickBy obj p = filter (\<lambda>(k, v). p v) obj"

definition Object_keys :: "('k \<times> 'v) list \<Rightarrow> 'k list" where
  "Object_keys obj = map fst obj"

section \<open>The hook's surroundings\<close>

datatype UrlLayerKey = HAZARD | ADMINLEVEL

text \<open>The keys of the URL's query: a layer-id list per \<open>UrlLayerKey\<close>, and \<^verbatim>\<open>'date'\<close>.\<close>

datatype urlParam = layerParam UrlLayerKey | dateParam

datatype notificationType = info | warning | error

text \<open>
  What the hook does to its surroundings, in the order it does it: actions dispatched to
  the store (\<^verbatim>\<open>addNotification\<close>, \<^verbatim>\<open>addLayer\<close>, \<^verbatim>\<open>removeLayer\<close>,
  \<^verbatim>\<open>updateDateRange\<close>) and calls to the URL history (\<^verbatim>\<open>updateHistory\<close>,
  \<^verbatim>\<open>removeLayerFromUrl\<close>). Console output is not recorded.
\<close>

datatype effect =
    addNotification string notificationType
  | addLayer "layer option"
  | removeLayer layer
  | updateDateRange int
  | updateHistory urlParam string
  | removeLayerFromUrl UrlLayerKey string

datatype jsError = TypeError

text \<open>
  The functions and tables that \<^verbatim>\<open>useLayers\<close> imports from other modules of the
  application and from the JavaScript runtime. The hook is modelled for any of them.
  \<^item> \<open>layerOrdering\<close> is a comparator: negative, zero or positive.
  \<^item> \<open>LayerDefinitions\<close> is the layer registry, from layer ids to layers.
  \<^item> \<open>checkLayerAvailableDatesAndContinueOrRemove\<close> receives the URL and dispatch
    functions: it gives the effects it has and whether it threw.
  \<^item> \<open>getFormattedDate\<close> is taken with the default date format, the only one used.
  \<^item> \<open>getTimeInMilliseconds\<close> and \<open>newDate\<close> (the runtime's \<^verbatim>\<open>new Date(string)\<close>)
    give \<open>None\<close> for \<^verbatim>\<open>NaN\<close>.
\<close>

record collaborators =
  isMainLayer :: "string \<Rightarrow> layer list \<Rightarrow> bool"
  getPossibleDatesForLayer :: "layer \<Rightarrow> availableDates \<Rightarrow> dateItem list"
  layerOrdering :: "layer \<Rightarrow> layer \<Rightarrow> int"
  LayerDefinitions :: "(string \<times> layer) list"
  checkLayerAvailableDatesAndContinueOrRemove ::
    "layer option \<Rightarrow> availableDates \<Rightarrow> effect list \<times> bool"
  findClosestDate :: "int \<Rightarrow> int list \<Rightarrow> int"
  getFormattedDate :: "int \<Rightarrow> string"
  getUrlKey :: "layer \<Rightarrow> UrlLayerKey"
  binaryIncludes :: "dateItem list \<Rightarrow> int \<Rightarrow> (dateItem \<Rightarrow> int) \<Rightarrow> bool"
  datesAreEqualWithoutTime :: "int \<Rightarrow> int \<Rightarrow> bool"
  getTimeInMilliseconds :: "string \<Rightarrow> int option"
  newDate :: "string \<Rightarrow> int option"

text \<open>
  What the hook reads: the URL's parameters, the store's selected layers (in the store's
  order), the server's table of dates, the store's selected date (\<open>startDate\<close>,
  \<open>None\<close> when undefined) and the clock (\<^verbatim>\<open>new Date()\<close>).
\<close>

record hookInputs =
  urlParams :: "urlParam \<Rightarrow> string option"
  unsortedSelectedLayers :: "layer list"
  serverAvailableDates :: availableDates
  selectedDate :: "int option"
  now :: int

subsection \<open>JavaScript values\<close>

text \<open>A string or null is truthy when it is a non-empty string.\<close>

fun truthyString :: "string option \<Rightarrow> bool" where
  "truthyString None = False"
| "truthyString (Some str) = (str \<noteq> [])"

text \<open>A number or undefined is truthy when it is a number other than 0.\<close>

fun truthyNumber :: "int option \<Rightarrow> bool" where
  "truthyNumber None = False"
| "truthyNumber (Some n) = (n \<noteq> 0)"

text \<open>
  \<^verbatim>\<open>a === b\<close> where \<open>a\<close> is a number or \<^verbatim>\<open>NaN\<close> and \<open>b\<close> a number or undefined:
  \<^verbatim>\<open>NaN\<close> equals nothing, and no number equals undefined.
\<close>

fun strictEquals :: "int option \<Rightarrow> int option \<Rightarrow> bool" where
  "strictEquals (Some a) (Some b) = (a = b)"
| "strictEquals _ _ = False"

text \<open>\<^verbatim>\<open>str.split(',')\<close>: the empty string gives one empty piece.\<close>

fun split_comma :: "string \<Rightarrow> string list" where
  "split_comma [] = [[]]"
| "split_comma (ch # rest) =
     (if ch = CHR '','' then [] # split_comma rest
      else (case split_comma rest of
              [] \<Rightarrow> [[ch]]
            | w # ws \<Rightarrow> (ch # w) # ws))"

text \<open>\<^verbatim>\<open>ids.join(',')\<close>\<close>

fun join_comma :: "string list \<Rightarrow> string" where
  "join_comma [] = []"
| "join_comma [x] = x"
| "join_comma (x # y # zs) = x @ '','' @ join_comma (y # zs)"

text \<open>
  \<^verbatim>\<open>[...xs].sort(cmp)\<close>: the sort is stable, and an element goes before another when
  the comparator is negative.
\<close>

fun insert_sorted :: "('a \<Rightarrow> 'a \<Rightarrow> int) \<Rightarrow> 'a \<Rightarrow> 'a list \<Rightarrow> 'a list" where
  "insert_sorted cmp x [] = [x]"
| "insert_sorted cmp x (y # ys) =
     (if cmp x y \<le> 0 then x # y # ys else y # insert_sorted cmp x ys)"

definition sort_with :: "('a \<Rightarrow> 'a \<Rightarrow> int) \<Rightarrow> 'a list \<Rightarrow> 'a list" where
  "sort_with cmp xs = foldr (insert_sorted cmp) xs []"

text \<open>\<^verbatim>\<open>xs[i]\<close>: undefined out of range.\<close>

definition at_index :: "'a list \<Rightarrow> int \<Rightarrow> 'a option" where
  "at_index xs i = (if 0 \<le> i \<and> i < int (length xs) then Some (xs ! nat i) else None)"

section \<open>useLayers: the values it computes\<close>

text \<open>
  Each memoized value of the hook is a function of the collaborators and of what the hook
  reads. The definitions follow the source in its order, from \<open>dateSupportLayerTypes\<close>
  (line 36) to \<open>dateInt\<close> (line 252).
\<close>

definition dateSupportLayerTypes :: "layerKind list" where
  "dateSupportLayerTypes = [impact, point_data, wms, static_raster]"

definition hazardLayerIds :: "hookInputs \<Rightarrow> string option" where
  "hazardLayerIds s = urlParams s (layerParam HAZARD)"

definition hazardLayersArray :: "hookInputs \<Rightarrow> string list" where
  "hazardLayersArray s =
     (case hazardLayerIds s of None \<Rightarrow> [] | Some ids \<Rightarrow> split_comma ids)"

definition baselineLayerIds :: "hookInputs \<Rightarrow> string option" where
  "baselineLayerIds s = urlParams s (layerParam ADMINLEVEL)"

definition baselineLayersArray :: "hookInputs \<Rightarrow> string list" where
  "baselineLayersArray s =
     (case baselineLayerIds s of None \<Rightarrow> [] | Some ids \<Rightarrow> split_comma ids)"

text \<open>Lines 75 to 78: the selected layers, sorted.\<close>

definition selectedLayers :: "collaborators \<Rightarrow> hookInputs \<Rightarrow> layer list" where
  "selectedLayers c s = sort_with (layerOrdering c) (unsortedSelectedLayers s)"

text \<open>Lines 84 to 100: the first filter of \<open>selectedLayersWithDateSupport\<close>.\<close>

definition isDateCompatibleLayer :: "availableDates \<Rightarrow> layer \<Rightarrow> bool" where
  "isDateCompatibleLayer table l =
     (if layerType l = admin_level_data \<or> layerType l = static_raster then dates l \<noteq> None
      else if layerType l = wms then hasKey (layerId l) table
      else if layerType l = composite then
        (case dateLayer l of None \<Rightarrow> False | Some k \<Rightarrow> hasKey k table)
      else layerType l \<in> set dateSupportLayerTypes)"

text \<open>
  Lines 82 to 110: each layer that passes the two filters, with its \<open>dateItems\<close>. The
  dates are an array of objects: the null check and \<^verbatim>\<open>flat()\<close> of the source
  leave it as it is.
\<close>

definition selectedLayersWithDateSupport ::
  "collaborators \<Rightarrow> hookInputs \<Rightarrow> (layer \<times> dateItem list) list" where
  "selectedLayersWithDateSupport c s =
     map (\<lambda>l. (l, getPossibleDatesForLayer c l (serverAvailableDates s)))
       (filter (\<lambda>l. isMainLayer c (layerId l) (selectedLayers c s))
         (filter (isDateCompatibleLayer (serverAvailableDates s)) (selectedLayers c s)))"

text \<open>The null check \<^verbatim>\<open>.filter(value => value)\<close> on arrays: every array is truthy.\<close>

definition truthyArray :: "'a list \<Rightarrow> bool" where
  "truthyArray xs = True"

text \<open>
  Lines 116 to 124: the dates of all the layers with date support, flattened into one
  array, each as the text of its day, and counted.
\<close>

definition selectedLayerDatesDupCount ::
  "collaborators \<Rightarrow> hookInputs \<Rightarrow> (dayString \<times> nat) list" where
  "selectedLayerDatesDupCount c s =
     countBy
       (map (\<lambda>v. toISODateString (displayDate v))
         (concat
           (filter truthyArray
             (map (\<lambda>(l, items). getPossibleDatesForLayer c l (serverAvailableDates s))
               (selectedLayersWithDateSupport c s)))))"

text \<open>
  Lines 127 to 141: the days counted at least as many times as there are layers with date
  support, each as the timestamp of its midday UTC.
\<close>

definition selectedLayerDates :: "collaborators \<Rightarrow> hookInputs \<Rightarrow> int list" where
  "selectedLayerDates c s =
     (if length (selectedLayersWithDateSupport c s) = 0 then []
      else map (\<lambda>dateString. setUTCHours12 (newDateOfDayString dateString))
             (Object_keys
               (pickBy (selectedLayerDatesDupCount c s)
                 (\<lambda>dupTimes. dupTimes \<ge> length (selectedLayersWithDateSupport c s)))))"

text \<open>Lines 155 to 167 and 214 to 225: the layer ids of the URL.\<close>

definition selectedLayersIds :: "collaborators \<Rightarrow> hookInputs \<Rightarrow> string list" where
  "selectedLayersIds c s = map layerId (selectedLayers c s)"

definition urlLayerIds :: "hookInputs \<Rightarrow> string list" where
  "urlLayerIds s = hazardLayersArray s @ baselineLayersArray s"

definition missingLayers :: "collaborators \<Rightarrow> hookInputs \<Rightarrow> string list" where
  "missingLayers c s =
     filter (\<lambda>layerKey. layerKey \<notin> set (selectedLayersIds c s)) (urlLayerIds s)"

definition serverAvailableDatesAreEmpty :: "hookInputs \<Rightarrow> bool" where
  "serverAvailableDatesAreEmpty s = (length (Object_keys (serverAvailableDates s)) = 0)"

definition layerDefinitionIds :: "collaborators \<Rightarrow> string list" where
  "layerDefinitionIds c = Object_keys (LayerDefinitions c)"

definition invalidLayersIds :: "collaborators \<Rightarrow> hookInputs \<Rightarrow> string list" where
  "invalidLayersIds c s =
     filter (\<lambda>layerKey. layerKey \<notin> set (layerDefinitionIds c)) (urlLayerIds s)"

definition urlDate :: "hookInputs \<Rightarrow> string option" where
  "urlDate s = urlParams s dateParam"

text \<open>
  Lines 252 to 254: the date integer from the URL, or from the clock when the URL has no
  date; \<open>None\<close> is \<^verbatim>\<open>NaN\<close>, the result for a text that is no date.
\<close>

definition dateInt :: "collaborators \<Rightarrow> hookInputs \<Rightarrow> int option" where
  "dateInt c s =
     map_option setUTCHours12
       (case urlDate s of
          None \<Rightarrow> Some (now s)
        | Some str \<Rightarrow> if truthyString (Some str) then newDate c str else Some (now s))"

section \<open>useLayers: its effects\<close>

subsection \<open>Loading the layers and the date named by the URL\<close>

text \<open>
  Lines 228 to 244, \<open>addMissingLayers\<close>: each missing layer is looked up in the registry (undefined when
  it is not there) and checked; when the check throws, the error is logged and the layer
  is skipped, otherwise the layer is added.
\<close>

definition addMissingLayer :: "collaborators \<Rightarrow> hookInputs \<Rightarrow> string \<Rightarrow> effect list" where
  "addMissingLayer c s layerKey =
     (let layer = map_of (LayerDefinitions c) layerKey;
          (effects, threw) =
            checkLayerAvailableDatesAndContinueOrRemove c layer (serverAvailableDates s)
      in if threw then effects else effects @ [addLayer layer])"

definition addMissingLayers :: "collaborators \<Rightarrow> hookInputs \<Rightarrow> effect list" where
  "addMissingLayers c s = concat (map (addMissingLayer c s) (missingLayers c s))"

text \<open>Lines 256 to 305: the effect that follows the URL's layer ids and date.\<close>

definition urlEffect :: "collaborators \<Rightarrow> hookInputs \<Rightarrow> effect list" where
  "urlEffect c s =
     (if (\<not> truthyString (hazardLayerIds s) \<and> \<not> truthyString (baselineLayerIds s))
         \<or> serverAvailableDatesAreEmpty s
      then []
      else if length (invalidLayersIds c s) > 0 then
        [addNotification
           (''Invalid layer identifier(s): '' @ join_comma (invalidLayersIds c s)) error]
      else
        addMissingLayers c s @
        (if \<not> truthyString (urlDate s) \<or> strictEquals (dateInt c s) (selectedDate s) then []
         else (case dateInt c s of
                 Some d \<Rightarrow>
                   [updateDateRange d, updateHistory dateParam (getFormattedDate c d)]
               | None \<Rightarrow>
                   [addNotification ''Invalid date found. Using most recent date'' warning])))"

subsection \<open>Layers whose dates do not overlap\<close>

text \<open>Lines 307 to 336.\<close>

definition removeLayerAndUpdateHistory ::
  "collaborators \<Rightarrow> hookInputs \<Rightarrow> layer \<Rightarrow> layer \<Rightarrow> effect list" where
  "removeLayerAndUpdateHistory c s layerToRemove layerToKeep =
     (case selectedDate s of
        None \<Rightarrow> []
      | Some date \<Rightarrow>
          if \<not> truthyNumber (Some date) then []
          else
            (let urlLayerKey = getUrlKey c layerToRemove;
                 layerToKeepDates =
                   map displayDate
                     (getPossibleDatesForLayer c layerToKeep (serverAvailableDates s));
                 closestDate = findClosestDate c date layerToKeepDates
             in [removeLayerFromUrl urlLayerKey (layerId layerToRemove),
                 removeLayer layerToRemove,
                 updateHistory dateParam (getFormattedDate c closestDate)]))"

text \<open>
  Lines 339 to 366: the effect that tells the user that the selected layers cannot be
  viewed together. The two layers are read from the sorted list \<open>selectedLayers\<close>.
  Reading \<^verbatim>\<open>layerToRemove.id\<close> throws when the list has no second-to-last element.
\<close>

definition noOverlapEffect :: "collaborators \<Rightarrow> hookInputs \<Rightarrow> jsError + effect list" where
  "noOverlapEffect c s =
     (if length (selectedLayerDates c s) \<noteq> 0
         \<or> length (selectedLayersWithDateSupport c s) = 0
         \<or> \<not> truthyNumber (selectedDate s)
      then Inr []
      else
        (case (at_index (selectedLayers c s) (int (length (selectedLayers c s)) - 2),
               at_index (selectedLayers c s) (int (length (selectedLayers c s)) - 1)) of
           (Some layerToRemove, Some layerToKeep) \<Rightarrow>
             Inr (addNotification
                    (''No dates overlap with the selected layers. Removing previous layer: ''
                       @ layerId layerToRemove @ ''.'') warning
                  # removeLayerAndUpdateHistory c s layerToRemove layerToKeep)
         | _ \<Rightarrow> Inl TypeError))"

subsection \<open>A selected date that a layer does not have\<close>

text \<open>
  Lines 368 to 377: \<open>possibleDatesForLayerIncludeSelectedDate\<close> sets the date object it is given to midday
  UTC and searches the layer's dates for it.
\<close>

definition possibleDatesForLayerIncludeSelectedDate ::
  "collaborators \<Rightarrow> hookInputs \<Rightarrow> layer \<Rightarrow> int \<Rightarrow> bool" where
  "possibleDatesForLayerIncludeSelectedDate c s layer date =
     binaryIncludes c (getPossibleDatesForLayer c layer (serverAvailableDates s))
       (setUTCHours12 date) (\<lambda>x. setUTCHours12 (displayDate x))"

definition apostrophe :: string where
  "apostrophe = [CHR 0x27]"

text \<open>The text of the notification of lines 418 to 426.\<close>

definition noDataMessage :: "string \<Rightarrow> string \<Rightarrow> string \<Rightarrow> string" where
  "noDataMessage layerTitle selected closest =
     ''No data was found for layer '' @ apostrophe @ layerTitle @ apostrophe @ '' on ''
       @ selected @ ''. The closest date '' @ closest @ '' has been loaded instead.''"

text \<open>
  Lines 397 to 429: what the loop does for a layer that lacks the selected date. The search has set the date
  object \<open>jsSelectedDate\<close> to midday UTC of the selected day by then.
\<close>

definition snapAndNotify ::
  "collaborators \<Rightarrow> hookInputs \<Rightarrow> int \<Rightarrow> (layer \<times> dateItem list) \<Rightarrow> effect list" where
  "snapAndNotify c s date layer =
     (let jsSelectedDate = setUTCHours12 date;
          closestDate = findClosestDate c date (selectedLayerDates c s)
      in (if datesAreEqualWithoutTime c jsSelectedDate closestDate then []
          else [updateHistory dateParam (getFormattedDate c closestDate)])
         @ [addNotification
              (noDataMessage (title (fst layer)) (getFormattedDate c jsSelectedDate)
                 (getFormattedDate c closestDate)) warning])"

text \<open>Lines 387 to 430: the body of the loop over the layers with date support.\<close>

definition closestDateStep ::
  "collaborators \<Rightarrow> hookInputs \<Rightarrow> int \<Rightarrow> (layer \<times> dateItem list) \<Rightarrow> effect list" where
  "closestDateStep c s date layer =
     (if serverAvailableDatesAreEmpty s
         \<or> possibleDatesForLayerIncludeSelectedDate c s (fst layer) date
      then []
      else snapAndNotify c s date layer)"

text \<open>
  Lines 379 to 440: the effect that snaps the URL's date to the closest selectable date.
\<close>

definition closestDateEffect :: "collaborators \<Rightarrow> hookInputs \<Rightarrow> effect list" where
  "closestDateEffect c s =
     (case (selectedDate s, urlDate s) of
        (Some date, Some str) \<Rightarrow>
          if \<not> truthyNumber (Some date) \<or> \<not> truthyString (Some str)
             \<or> strictEquals (getTimeInMilliseconds c str) (Some date)
          then []
          else concat (map (closestDateStep c s date) (selectedLayersWithDateSupport c s))
      | _ \<Rightarrow> [])"

section \<open>The imported helpers, as the specification describes them\<close>

text \<open>
  The hook above is modelled for any collaborators. The definitions of this section give
  one of them each, for running the hook on concrete layers.
\<close>

text \<open>
  Modelled from the spec: \<open>isMainLayer\<close> is not in the source at hand. A main layer is
  one that is not a dependent companion of another selected layer; the companion of a
  composite layer is its designated date layer.
\<close>

definition spec_isMainLayer :: "string \<Rightarrow> layer list \<Rightarrow> bool" where
  "spec_isMainLayer layerKey layers =
     (\<not> list_ex (\<lambda>l. layerType l = composite \<and> dateLayer l = Some layerKey) layers)"

text \<open>
  Modelled from the spec: \<open>getPossibleDatesForLayer\<close> is not in the source at hand. The
  candidate dates of a layer are its own static dates, or the ones found under the
  server's key for the layer or, for a composite layer, for its companion date layer; a
  key that the table lacks gives no date.
\<close>

definition datesUnderKey :: "availableDates \<Rightarrow> string \<Rightarrow> dateItem list" where
  "datesUnderKey table k = (case map_of table k of None \<Rightarrow> [] | Some items \<Rightarrow> items)"

definition spec_getPossibleDatesForLayer :: "layer \<Rightarrow> availableDates \<Rightarrow> dateItem list" where
  "spec_getPossibleDatesForLayer l table =
     (case dates l of
        Some ds \<Rightarrow> map (\<lambda>d. \<lparr>displayDate = d\<rparr>) ds
      | None \<Rightarrow>
          if layerType l = composite then
            (case dateLayer l of None \<Rightarrow> [] | Some k \<Rightarrow> datesUnderKey table k)
          else datesUnderKey table (layerId l))"

text \<open>
  Modelled from the spec: \<open>layerOrdering\<close> is not in the source at hand. Boundary and
  point-data layers sort first.
\<close>

definition layerRank :: "layer \<Rightarrow> int" where
  "layerRank l = (if layerType l = boundary \<or> layerType l = point_data then 0 else 1)"

definition spec_layerOrdering :: "layer \<Rightarrow> layer \<Rightarrow> int" where
  "spec_layerOrdering a b = layerRank a - layerRank b"

text \<open>
  Modelled from the spec: \<open>findClosestDate\<close> is not in the source at hand. It returns the
  candidate at the least absolute distance from the target, the earlier one of two at the
  same distance, and the target itself when there is no candidate.
\<close>

definition closerDate :: "int \<Rightarrow> int \<Rightarrow> int \<Rightarrow> int" where
  "closerDate target best candidate =
     (if \<bar>candidate - target\<bar> < \<bar>best - target\<bar>
         \<or> (\<bar>candidate - target\<bar> = \<bar>best - target\<bar> \<and> candidate < best)
      then candidate else best)"

fun spec_findClosestDate :: "int \<Rightarrow> int list \<Rightarrow> int" where
  "spec_findClosestDate target [] = target"
| "spec_findClosestDate target (d # ds) = foldl (closerDate target) d ds"

text \<open>
  Modelled from the spec: \<open>binaryIncludes\<close> is not in the source at hand. It is a binary
  search, by a key, of a sequence sorted by that key.
\<close>

function binarySearch :: "('a \<Rightarrow> int) \<Rightarrow> 'a list \<Rightarrow> int \<Rightarrow> nat \<Rightarrow> nat \<Rightarrow> bool" where
  "binarySearch getValue xs x lo hi =
     (if hi \<le> lo \<or> length xs < hi then False
      else
        (let mid = (lo + hi) div 2; v = getValue (xs ! mid)
         in if v = x then True
            else if v < x then binarySearch getValue xs x (mid + 1) hi
            else binarySearch getValue xs x lo mid))"
  by pat_completeness auto
termination
  by (relation "measure (\<lambda>(getValue, xs, x, lo, hi). hi - lo)") auto

definition spec_binaryIncludes :: "'a list \<Rightarrow> int \<Rightarrow> ('a \<Rightarrow> int) \<Rightarrow> bool" where
  "spec_binaryIncludes xs x getValue = binarySearch getValue xs x 0 (length xs)"

text \<open>
  Modelled from the spec: \<open>datesAreEqualWithoutTime\<close> is not in the source at hand. Two
  dates are equal without time when they fall on the same calendar day.
\<close>

definition spec_datesAreEqualWithoutTime :: "int \<Rightarrow> int \<Rightarrow> bool" where
  "spec_datesAreEqualWithoutTime a b = (toISODateString a = toISODateString b)"

subsection \<open>Calendar dates as text\<close>

text \<open>
  The days of the proleptic Gregorian calendar, counted from 1970-01-01, and the text
  \<^verbatim>\<open>YYYY-MM-DD\<close> of a day of the years 0000 to 9999.
\<close>

definition civilFromDays :: "int \<Rightarrow> int \<times> int \<times> int" where
  "civilFromDays days =
     (let z = days + 719468;
          era = z div 146097;
          doe = z mod 146097;
          yoe = (doe - doe div 1460 + doe div 36524 - doe div 146096) div 365;
          doy = doe - (365 * yoe + yoe div 4 - yoe div 100);
          mp = (5 * doy + 2) div 153;
          d = doy - (153 * mp + 2) div 5 + 1;
          m = (if mp < 10 then mp + 3 else mp - 9)
      in (yoe + era * 400 + (if m \<le> 2 then 1 else 0), m, d))"

definition daysFromCivil :: "int \<Rightarrow> int \<Rightarrow> int \<Rightarrow> int" where
  "daysFromCivil year m d =
     (let y = (if m \<le> 2 then year - 1 else year);
          era = y div 400;
          yoe = y mod 400;
          doy = (153 * (if m > 2 then m - 3 else m + 9) + 2) div 5 + d - 1;
          doe = yoe * 365 + yoe div 4 - yoe div 100 + doy
      in era * 146097 + doe - 719468)"

definition digitChar :: "int \<Rightarrow> char" where
  "digitChar n = char_of (48 + n)"

definition twoDigits :: "int \<Rightarrow> string" where
  "twoDigits n = [digitChar (n div 10 mod 10), digitChar (n mod 10)]"

definition isoDateText :: "int \<Rightarrow> string" where
  "isoDateText days =
     (case civilFromDays days of
        (y, m, d) \<Rightarrow>
          twoDigits (y div 100) @ twoDigits y @ ''-'' @ twoDigits m @ ''-'' @ twoDigits d)"

definition digitValue :: "char \<Rightarrow> int option" where
  "digitValue ch =
     (if (48::nat) \<le> of_char ch \<and> of_char ch \<le> (57::nat) then Some (of_char ch - 48)
      else None)"

fun numberOfDigits :: "string \<Rightarrow> int option" where
  "numberOfDigits [] = None"
| "numberOfDigits str =
     foldl (\<lambda>acc ch. case (acc, digitValue ch) of
                        (Some n, Some v) \<Rightarrow> Some (10 * n + v)
                      | _ \<Rightarrow> None) (Some 0) str"

definition parseIsoDate :: "string \<Rightarrow> int option" where
  "parseIsoDate str =
     (if length str = 10 \<and> str ! 4 = CHR ''-'' \<and> str ! 7 = CHR ''-'' then
        (case (numberOfDigits (take 4 str), numberOfDigits (take 2 (drop 5 str)),
               numberOfDigits (drop 8 str)) of
           (Some y, Some m, Some d) \<Rightarrow>
             if civilFromDays (daysFromCivil y m d) = (y, m, d)
             then Some (daysFromCivil y m d * msPerDay) else None
         | _ \<Rightarrow> None)
      else None)"

text \<open>
  Modelled from the spec: \<open>getFormattedDate\<close> and \<open>getTimeInMilliseconds\<close> are not in
  the source at hand, and the application's date format is not given. The URL's date is
  taken in the form \<^verbatim>\<open>YYYY-MM-DD\<close>, which the runtime reads as midnight UTC of that
  day; any other text is taken as an invalid date.
\<close>

definition spec_getFormattedDate :: "int \<Rightarrow> string" where
  "spec_getFormattedDate t = isoDateText (toISODateString t)"

definition spec_getTimeInMilliseconds :: "string \<Rightarrow> int option" where
  "spec_getTimeInMilliseconds str = parseIsoDate str"

text \<open>
  Modelled from the spec: \<open>getUrlKey\<close> is not in the source at hand, and the
  specification does not describe it. Here the URL lists the layers of administrative-level
  data under the baseline key and every other layer under the hazard key.
\<close>

definition spec_getUrlKey :: "layer \<Rightarrow> UrlLayerKey" where
  "spec_getUrlKey l = (if layerType l = admin_level_data then ADMINLEVEL else HAZARD)"

text \<open>
  Modelled from the spec: \<open>checkLayerAvailableDatesAndContinueOrRemove\<close> is not in the
  source at hand, and the specification does not describe it. Here it accepts every layer
  of the registry and has no effect of its own; it throws on an undefined layer.
\<close>

definition spec_checkLayer :: "layer option \<Rightarrow> availableDates \<Rightarrow> effect list \<times> bool" where
  "spec_checkLayer layer table = ([], layer = None)"

definition specCollaborators :: "(string \<times> layer) list \<Rightarrow> collaborators" where
  "specCollaborators registry =
     \<lparr> isMainLayer = spec_isMainLayer,
       getPossibleDatesForLayer = spec_getPossibleDatesForLayer,
       layerOrdering = spec_layerOrdering,
       LayerDefinitions = registry,
       checkLayerAvailableDatesAndContinueOrRemove = spec_checkLayer,
       findClosestDate = spec_findClosestDate,
       getFormattedDate = spec_getFormattedDate,
       getUrlKey = spec_getUrlKey,
       binaryIncludes = spec_binaryIncludes,
       datesAreEqualWithoutTime = spec_datesAreEqualWithoutTime,
       getTimeInMilliseconds = spec_getTimeInMilliseconds,
       newDate = parseIsoDate \<rparr>"

section \<open>Notions used to state the properties\<close>

text \<open>The calendar days on which a layer has a DateItem, one entry per DateItem.\<close>

definition calendarDays :: "dateItem list \<Rightarrow> dayString list" where
  "calendarDays items = map (\<lambda>v. toISODateString (displayDate v)) items"

text \<open>The calendar days of all the layers, layer after layer.\<close>

definition allCalendarDays :: "(layer \<times> dateItem list) list \<Rightarrow> dayString list" where
  "allCalendarDays layers = concat (map (\<lambda>p. calendarDays (snd p)) layers)"

text \<open>A timestamp is normalized when its time of day is 12:00:00.000 UTC.\<close>

definition isMiddayUTC :: "int \<Rightarrow> bool" where
  "isMiddayUTC t = (t mod msPerDay = 12 * 3600000)"

text \<open>The count that a counting object holds for a key, 0 for a key it lacks.\<close>

definition occurrences :: "('k \<times> nat) list \<Rightarrow> 'k \<Rightarrow> nat" where
  "occurrences obj k = (case map_of obj k of None \<Rightarrow> 0 | Some n \<Rightarrow> n)"

text \<open>The effects that are notifications.\<close>

fun isNotification :: "effect \<Rightarrow> bool" where
  "isNotification (addNotification message kind) = True"
| "isNotification _ = False"

text \<open>
  A layer lacks the selected date when the search of its dates for the selected day fails.
\<close>

definition lacksSelectedDate ::
  "collaborators \<Rightarrow> hookInputs \<Rightarrow> int \<Rightarrow> (layer \<times> dateItem list) \<Rightarrow> bool" where
  "lacksSelectedDate c s date layer =
     (\<not> possibleDatesForLayerIncludeSelectedDate c s (fst layer) date)"

text \<open>The date that the loop offers instead: the selectable date closest to the selected one.\<close>

definition closestSelectableDate :: "collaborators \<Rightarrow> hookInputs \<Rightarrow> int \<Rightarrow> int" where
  "closestSelectableDate c s date = findClosestDate c date (selectedLayerDates c s)"

text \<open>The notification that no data was found for a layer on the selected day.\<close>

definition noDataNotification ::
  "collaborators \<Rightarrow> hookInputs \<Rightarrow> int \<Rightarrow> (layer \<times> dateItem list) \<Rightarrow> effect" where
  "noDataNotification c s date layer =
     addNotification
       (noDataMessage (title (fst layer)) (getFormattedDate c (setUTCHours12 date))
          (getFormattedDate c (closestSelectableDate c s date))) warning"

section \<open>Example layers\<close>

definition wmsLayer :: "string \<Rightarrow> layer" where
  "wmsLayer k =
     \<lparr>layerId = k, layerType = wms, title = k, dates = None, dateLayer = None\<rparr>"

definition pointDataLayer :: "string \<Rightarrow> layer" where
  "pointDataLayer k =
     \<lparr>layerId = k, layerType = point_data, title = k, dates = None, dateLayer = None\<rparr>"

definition boundaryLayer :: "string \<Rightarrow> layer" where
  "boundaryLayer k =
     \<lparr>layerId = k, layerType = boundary, title = k, dates = None, dateLayer = None\<rparr>"

definition dateItemsAt :: "int list \<Rightarrow> dateItem list" where
  "dateItemsAt ts = map (\<lambda>t. \<lparr>displayDate = t\<rparr>) ts"

definition registry :: "(string \<times> layer) list" where
  "registry =
     [(''flood'', wmsLayer ''flood''), (''storm'', wmsLayer ''storm''),
      (''stations'', pointDataLayer ''stations''),
      (''admin_boundaries'', boundaryLayer ''admin_boundaries'')]"

definition app :: collaborators where
  "app = specCollaborators registry"

text \<open>Nothing in the URL, nothing selected, no date from the server.\<close>

definition idle :: hookInputs where
  "idle =
     \<lparr> urlParams = (\<lambda>k. None), unsortedSelectedLayers = [], serverAvailableDates = [],
       selectedDate = None, now = 1704110400000 \<rparr>"

text \<open>Only the boundary layer is selected; the server has dates for flood.\<close>

definition boundaryOnly :: hookInputs where
  "boundaryOnly =
     idle \<lparr> unsortedSelectedLayers := [boundaryLayer ''admin_boundaries''],
            serverAvailableDates := [(''flood'', dateItemsAt [1704110400000])] \<rparr>"

text \<open>
  Two WMS layers: flood on 2024-01-01 and 2024-01-02, storm on 2024-01-02 and 2024-01-03
  (each at midday UTC); the 2nd of January is selected.
\<close>

definition floodAndStorm :: hookInputs where
  "floodAndStorm =
     idle \<lparr> urlParams := (\<lambda>k. None)(layerParam HAZARD \<mapsto> ''flood,storm'',
                                       dateParam \<mapsto> ''2024-01-02''),
            unsortedSelectedLayers := [wmsLayer ''flood'', wmsLayer ''storm''],
            serverAvailableDates :=
              [(''flood'', dateItemsAt [1704110400000, 1704196800000]),
               (''storm'', dateItemsAt [1704196800000, 1704283200000])],
            selectedDate := Some 1704196800000 \<rparr>"

text \<open>
  Flood at 08:00 and at 16:00 of 2024-01-01 and at midday of 2024-01-02; storm at midday
  of 2024-01-02 only.
\<close>

definition floodTwiceADay :: hookInputs where
  "floodTwiceADay =
     floodAndStorm \<lparr> serverAvailableDates :=
       [(''flood'', dateItemsAt [1704096000000, 1704124800000, 1704196800000]),
        (''storm'', dateItemsAt [1704196800000])] \<rparr>"

text \<open>Flood on 2024-01-01 and 2024-01-02; the server has no date for storm.\<close>

definition stormWithoutDates :: hookInputs where
  "stormWithoutDates =
     floodAndStorm \<lparr> serverAvailableDates :=
       [(''flood'', dateItemsAt [1704110400000, 1704196800000]), (''storm'', [])] \<rparr>"

text \<open>Flood at 08:00 and at 16:00 of 2024-01-01; the server has no date for storm.\<close>

definition floodTwiceStormWithoutDates :: hookInputs where
  "floodTwiceStormWithoutDates =
     floodAndStorm \<lparr> serverAvailableDates :=
       [(''flood'', dateItemsAt [1704096000000, 1704124800000]), (''storm'', [])] \<rparr>"

text \<open>
  Flood, with a date on 2024-01-01, was added first and the point-data layer stations, with
  a date on 2024-01-03, after it; the 1st of January is selected.
\<close>

definition floodThenStations :: hookInputs where
  "floodThenStations =
     idle \<lparr> urlParams := (\<lambda>k. None)(layerParam HAZARD \<mapsto> ''flood,stations'',
                                       dateParam \<mapsto> ''2024-01-01''),
            unsortedSelectedLayers := [wmsLayer ''flood'', pointDataLayer ''stations''],
            serverAvailableDates :=
              [(''flood'', dateItemsAt [1704110400000]),
               (''stations'', dateItemsAt [1704283200000])],
            selectedDate := Some 1704110400000 \<rparr>"

text \<open>
  Flood and storm both have dates on 2024-01-01 and 2024-01-10; the 5th of January is in
  the URL and is the selected date.
\<close>

definition fifthOfJanuary :: hookInputs where
  "fifthOfJanuary =
     idle \<lparr> urlParams := (\<lambda>k. None)(layerParam HAZARD \<mapsto> ''flood,storm'',
                                       dateParam \<mapsto> ''2024-01-05''),
            unsortedSelectedLayers := [wmsLayer ''flood'', wmsLayer ''storm''],
            serverAvailableDates :=
              [(''flood'', dateItemsAt [1704110400000, 1704888000000]),
               (''storm'', dateItemsAt [1704110400000, 1704888000000])],
            selectedDate := Some 1704456000000 \<rparr>"

text \<open>The same selection and dates, with no date in the URL.\<close>

definition fifthOfJanuaryNoUrlDate :: hookInputs where
  "fifthOfJanuaryNoUrlDate =
     fifthOfJanuary \<lparr> urlParams := (\<lambda>k. None)(layerParam HAZARD \<mapsto> ''flood,storm'') \<rparr>"

text \<open>
  Flood at 08:00 and at 16:00 of 2024-01-01 and at midday of 2024-01-02, storm at midday of
  2024-01-02 only; the 1st of January is in the URL and is the selected date.
\<close>

definition firstOfJanuaryFloodTwice :: hookInputs where
  "firstOfJanuaryFloodTwice =
     floodTwiceADay \<lparr> urlParams := (\<lambda>k. None)(layerParam HAZARD \<mapsto> ''flood,storm'',
                                                 dateParam \<mapsto> ''2024-01-01''),
                      selectedDate := Some 1704110400000 \<rparr>"

text \<open>The URL names flood and a layer that the registry lacks; nothing is selected yet.\<close>

definition bogusLayerInUrl :: hookInputs where
  "bogusLayerInUrl =
     idle \<lparr> urlParams := (\<lambda>k. None)(layerParam HAZARD \<mapsto> ''flood,bogus''),
            serverAvailableDates := [(''flood'', dateItemsAt [1704110400000])] \<rparr>"

text \<open>The same URL before the server's dates have arrived.\<close>

definition bogusLayerInUrlNoServerDates :: hookInputs where
  "bogusLayerInUrlNoServerDates = bogusLayerInUrl \<lparr> serverAvailableDates := [] \<rparr>"

text \<open>The URL's hazard list is there but empty; the server's dates have arrived.\<close>

definition emptyLayerListInUrl :: hookInputs where
  "emptyLayerListInUrl =
     bogusLayerInUrl \<lparr> urlParams := (\<lambda>k. None)(layerParam HAZARD \<mapsto> []) \<rparr>"





section \<open>Counting\<close>

lemma keys_countBy_add_old:
  "k \<in> fst ` set obj \<Longrightarrow> map fst (countBy_add k obj) = map fst obj"
proof (induction obj)
  case Nil
  then show ?case by simp
next
  case (Cons p obj)
  obtain k' n where p: "p = (k', n)" by (cases p)
  show ?case
  proof (cases "k = k'")
    case True
    then show ?thesis using p by simp
  next
    case False
    then have "k \<in> fst ` set obj" using Cons.prems p by auto
    then show ?thesis using Cons.IH p False by simp
  qed
qed

lemma keys_countBy_add_new:
  "k \<notin> fst ` set obj \<Longrightarrow> map fst (countBy_add k obj) = map fst obj @ [k]"
  by (induction obj) auto

lemma set_keys_countBy_add: "fst ` set (countBy_add k obj) = insert k (fst ` set obj)"
proof (cases "k \<in> fst ` set obj")
  case True
  from keys_countBy_add_old [OF this]
  have "set (map fst (countBy_add k obj)) = set (map fst obj)"
    by (rule arg_cong)
  then show ?thesis using True by auto
next
  case False
  from keys_countBy_add_new [OF this]
  have "set (map fst (countBy_add k obj)) = set (map fst obj @ [k])"
    by (rule arg_cong)
  then show ?thesis by auto
qed

lemma distinct_countBy_add:
  "distinct (map fst obj) \<Longrightarrow> distinct (map fst (countBy_add k obj))"
  by (cases "k \<in> fst ` set obj") (simp_all add: keys_countBy_add_old keys_countBy_add_new)

lemma occurrences_countBy_add:
  "occurrences (countBy_add k obj) k' = occurrences obj k' + (if k = k' then 1 else 0)"
  by (induction obj) (auto simp: occurrences_def)

text \<open>The loop of \<open>countBy\<close>, from any object it may have reached.\<close>

lemma foldl_countBy_keys:
  "fst ` set (foldl (\<lambda>obj k. countBy_add k obj) obj xs) = fst ` set obj \<union> set xs"
  by (induction xs arbitrary: obj) (simp_all add: set_keys_countBy_add)

lemma foldl_countBy_distinct:
  "distinct (map fst obj) \<Longrightarrow>
   distinct (map fst (foldl (\<lambda>obj k. countBy_add k obj) obj xs))"
  by (induction xs arbitrary: obj) (simp_all add: distinct_countBy_add)

lemma foldl_countBy_occurrences:
  "occurrences (foldl (\<lambda>obj k. countBy_add k obj) obj xs) k
   = occurrences obj k + count_list xs k"
  by (induction xs arbitrary: obj) (auto simp: occurrences_countBy_add)

lemma distinct_keys_countBy: "distinct (map fst (countBy xs))"
  by (simp add: countBy_def foldl_countBy_distinct)

lemma keys_countBy: "fst ` set (countBy xs) = set xs"
  by (simp add: countBy_def foldl_countBy_keys)

lemma occurrences_countBy: "occurrences (countBy xs) k = count_list xs k"
  unfolding countBy_def by (simp add: foldl_countBy_occurrences) (simp add: occurrences_def)

lemma countBy_entry:
  "(k, n) \<in> set (countBy xs) \<longleftrightarrow> k \<in> set xs \<and> n = count_list xs k"
proof
  assume in_obj: "(k, n) \<in> set (countBy xs)"
  then have "map_of (countBy xs) k = Some n"
    using distinct_keys_countBy [of xs] by simp
  then have "occurrences (countBy xs) k = n"
    by (simp add: occurrences_def)
  moreover have "k \<in> fst ` set (countBy xs)"
    using in_obj by force
  ultimately show "k \<in> set xs \<and> n = count_list xs k"
    by (simp add: occurrences_countBy keys_countBy)
next
  assume r: "k \<in> set xs \<and> n = count_list xs k"
  then have "k \<in> fst ` set (countBy xs)"
    by (simp add: keys_countBy)
  then obtain m where m: "(k, m) \<in> set (countBy xs)"
    by auto
  then have "map_of (countBy xs) k = Some m"
    using distinct_keys_countBy [of xs] by simp
  then have "occurrences (countBy xs) k = m"
    by (simp add: occurrences_def)
  then show "(k, n) \<in> set (countBy xs)"
    using m r by (simp add: occurrences_countBy)
qed

lemma keys_pickBy_countBy:
  "set (Object_keys (pickBy (countBy xs) p)) = {k \<in> set xs. p (count_list xs k)}"
  by (auto simp: Object_keys_def pickBy_def countBy_entry image_iff)

lemma distinct_keys_pickBy:
  "distinct (map fst obj) \<Longrightarrow> distinct (Object_keys (pickBy obj p))"
  by (simp add: Object_keys_def pickBy_def distinct_map_filter)

lemma count_list_distinct:
  "distinct xs \<Longrightarrow> count_list xs x = (if x \<in> set xs then 1 else 0)"
  by (induction xs) auto

lemma filter_all_iff: "length xs \<le> length (filter P xs) \<longleftrightarrow> (\<forall>x \<in> set xs. P x)"
proof
  assume "length xs \<le> length (filter P xs)"
  then have "length (filter P xs) = length xs"
    using length_filter_le [of P xs] by simp
  then show "\<forall>x \<in> set xs. P x"
    by (metis length_filter_less less_irrefl)
next
  assume "\<forall>x \<in> set xs. P x"
  then show "length xs \<le> length (filter P xs)" by simp
qed

section \<open>The selectable dates\<close>

lemma inj_midday: "inj (\<lambda>k. setUTCHours12 (newDateOfDayString k))"
  by (auto simp: inj_def setUTCHours12_def newDateOfDayString_def msPerDay_def)

lemma midday_mem_iff:
  "setUTCHours12 (newDateOfDayString day) \<in> (\<lambda>d. setUTCHours12 (newDateOfDayString d)) ` A
   \<longleftrightarrow> day \<in> A"
  using inj_midday by (auto simp: inj_def)

lemma dateItems_of_selected:
  "(l, items) \<in> set (selectedLayersWithDateSupport c s) \<Longrightarrow>
   items = getPossibleDatesForLayer c l (serverAvailableDates s)"
  by (auto simp: selectedLayersWithDateSupport_def)

lemma possible_dates_of_selected:
  "map (\<lambda>(l, items). getPossibleDatesForLayer c l (serverAvailableDates s))
     (selectedLayersWithDateSupport c s) = map snd (selectedLayersWithDateSupport c s)"
  by (rule map_cong) (auto dest: dateItems_of_selected)

lemma dupCount_eq:
  "selectedLayerDatesDupCount c s
   = countBy (allCalendarDays (selectedLayersWithDateSupport c s))"
  by (simp add: selectedLayerDatesDupCount_def possible_dates_of_selected truthyArray_def
      allCalendarDays_def calendarDays_def map_concat comp_def)

lemma set_allCalendarDays:
  "set (allCalendarDays layers) = (\<Union>p \<in> set layers. set (calendarDays (snd p)))"
  by (simp add: allCalendarDays_def)

lemma count_allCalendarDays_distinct:
  "\<forall>p \<in> set layers. distinct (calendarDays (snd p)) \<Longrightarrow>
   count_list (allCalendarDays layers) day =
   length (filter (\<lambda>p. day \<in> set (calendarDays (snd p))) layers)"
proof (induction layers)
  case Nil
  then show ?case by (simp add: allCalendarDays_def)
next
  case (Cons p layers)
  have "count_list (calendarDays (snd p)) day
        = (if day \<in> set (calendarDays (snd p)) then 1 else 0)"
    using Cons.prems by (simp add: count_list_distinct)
  then show ?case using Cons by (simp add: allCalendarDays_def)
qed

text \<open>
  The result as a set, whatever the layers: the days met at least as many times as there
  are layers, each at midday UTC.
\<close>

lemma set_selectedLayerDates:
  "selectedLayersWithDateSupport c s \<noteq> [] \<Longrightarrow>
   set (selectedLayerDates c s) =
     (\<lambda>day. setUTCHours12 (newDateOfDayString day)) `
       {day \<in> set (allCalendarDays (selectedLayersWithDateSupport c s)).
          length (selectedLayersWithDateSupport c s)
            \<le> count_list (allCalendarDays (selectedLayersWithDateSupport c s)) day}"
  by (simp add: selectedLayerDates_def dupCount_eq keys_pickBy_countBy)

text \<open>
  Where no layer has two DateItems on the same calendar day, the count of a day is the number
  of layers that have it. For every non-empty list of date-supporting layers of that kind
  the selectable dates are exactly the calendar days shared by every layer, at midday UTC:
  a day is in the result if and only if every layer has a DateItem on that day.
\<close>

lemma selectedLayerDates_shared_days:
  assumes nonempty: "selectedLayersWithDateSupport c s \<noteq> []"
      and one_per_day:
        "\<forall>(l, items) \<in> set (selectedLayersWithDateSupport c s). distinct (calendarDays items)"
  shows "(setUTCHours12 (newDateOfDayString day) \<in> set (selectedLayerDates c s)
          \<longleftrightarrow> (\<forall>(l, items) \<in> set (selectedLayersWithDateSupport c s).
                 day \<in> set (calendarDays items)))
       \<and> set (selectedLayerDates c s) =
           {setUTCHours12 (newDateOfDayString d) | d.
              \<forall>(l, items) \<in> set (selectedLayersWithDateSupport c s).
                d \<in> set (calendarDays items)}"
proof -
  let ?L = "selectedLayersWithDateSupport c s"
  have d: "\<forall>p \<in> set ?L. distinct (calendarDays (snd p))"
    using one_per_day by auto
  have shared:
    "(d \<in> set (allCalendarDays ?L) \<and> length ?L \<le> count_list (allCalendarDays ?L) d)
      \<longleftrightarrow> (\<forall>p \<in> set ?L. d \<in> set (calendarDays (snd p)))" for d
  proof
    assume "d \<in> set (allCalendarDays ?L) \<and> length ?L \<le> count_list (allCalendarDays ?L) d"
    then show "\<forall>p \<in> set ?L. d \<in> set (calendarDays (snd p))"
      by (simp add: count_allCalendarDays_distinct [OF d] filter_all_iff)
  next
    assume all: "\<forall>p \<in> set ?L. d \<in> set (calendarDays (snd p))"
    then have "length ?L \<le> count_list (allCalendarDays ?L) d"
      by (simp add: count_allCalendarDays_distinct [OF d])
    moreover obtain p where "p \<in> set ?L"
      using nonempty by (cases ?L) auto
    then have "d \<in> set (allCalendarDays ?L)"
      using all unfolding set_allCalendarDays by blast
    ultimately
    show "d \<in> set (allCalendarDays ?L) \<and> length ?L \<le> count_list (allCalendarDays ?L) d"
      by simp
  qed
  have result: "set (selectedLayerDates c s) =
      (\<lambda>d. setUTCHours12 (newDateOfDayString d)) `
        {d. \<forall>p \<in> set ?L. d \<in> set (calendarDays (snd p))}"
    using shared by (simp add: set_selectedLayerDates [OF nonempty])
  have split: "(\<forall>(l, items) \<in> set ?L. d \<in> set (calendarDays items))
      \<longleftrightarrow> (\<forall>p \<in> set ?L. d \<in> set (calendarDays (snd p)))" for d
    by auto
  show ?thesis
    unfolding split result midday_mem_iff by auto
qed

text \<open>
  The flood and storm layers of the scenario share the 2nd of January 2024 (day 19724)
  only, and it is the one selectable date.
\<close>

lemma selectedLayerDates_shared_days_example:
  "selectedLayersWithDateSupport app floodAndStorm =
     [(wmsLayer ''flood'', dateItemsAt [1704110400000, 1704196800000]),
      (wmsLayer ''storm'', dateItemsAt [1704196800000, 1704283200000])]
   \<and> calendarDays (dateItemsAt [1704110400000, 1704196800000]) = [19723, 19724]
   \<and> calendarDays (dateItemsAt [1704196800000, 1704283200000]) = [19724, 19725]
   \<and> setUTCHours12 (newDateOfDayString 19724) \<in> set (selectedLayerDates app floodAndStorm)
   \<and> setUTCHours12 (newDateOfDayString 19723) \<notin> set (selectedLayerDates app floodAndStorm)
   \<and> setUTCHours12 (newDateOfDayString 19725) \<notin> set (selectedLayerDates app floodAndStorm)"
proof -
  have layers: "selectedLayersWithDateSupport app floodAndStorm =
     [(wmsLayer ''flood'', dateItemsAt [1704110400000, 1704196800000]),
      (wmsLayer ''storm'', dateItemsAt [1704196800000, 1704283200000])]"
    by code_simp
  have flood: "calendarDays (dateItemsAt [1704110400000, 1704196800000]) = [19723, 19724]"
    by code_simp
  have storm: "calendarDays (dateItemsAt [1704196800000, 1704283200000]) = [19724, 19725]"
    by code_simp
  have nonempty: "selectedLayersWithDateSupport app floodAndStorm \<noteq> []"
    by (simp add: layers)
  have one_per_day:
    "\<forall>(l, items) \<in> set (selectedLayersWithDateSupport app floodAndStorm).
       distinct (calendarDays items)"
    by (simp add: layers flood storm)
  have shared:
    "setUTCHours12 (newDateOfDayString day) \<in> set (selectedLayerDates app floodAndStorm)
     \<longleftrightarrow> (\<forall>(l, items) \<in> set (selectedLayersWithDateSupport app floodAndStorm).
            day \<in> set (calendarDays items))" for day
    using selectedLayerDates_shared_days [OF nonempty one_per_day, of day] by (rule conjunct1)
  have "setUTCHours12 (newDateOfDayString 19724) \<in> set (selectedLayerDates app floodAndStorm)"
    using shared [of 19724] by (simp add: layers flood storm)
  moreover
  have "setUTCHours12 (newDateOfDayString 19723) \<notin> set (selectedLayerDates app floodAndStorm)"
    using shared [of 19723] by (simp add: layers flood storm)
  moreover
  have "setUTCHours12 (newDateOfDayString 19725) \<notin> set (selectedLayerDates app floodAndStorm)"
    using shared [of 19725] by (simp add: layers flood storm)
  ultimately show ?thesis
    using layers flood storm by simp
qed

text \<open>
  Claim C1 says that, for layers that each have a DateItem and that share a calendar day,
  the selectable dates are exactly the days shared by every layer. The code counts the
  DateItems of a day over all the layers together, without regard to the layer they come
  from, and so breaks the claim and its own comment (a day counted as many times as there
  are layers is, it says, compatible with all layers selected). Flood has two DateItems on the
  1st of January 2024 (day 19723) and one on the 2nd, storm one on the 2nd: each layer has
  a DateItem and the layers share the 2nd, but the 1st is selectable too, though storm has
  no DateItem on it.
\<close>

theorem selectedLayerDates_repeated_day:
  "selectedLayersWithDateSupport app floodTwiceADay =
     [(wmsLayer ''flood'', dateItemsAt [1704096000000, 1704124800000, 1704196800000]),
      (wmsLayer ''storm'', dateItemsAt [1704196800000])]
   \<and> calendarDays (dateItemsAt [1704096000000, 1704124800000, 1704196800000])
       = [19723, 19723, 19724]
   \<and> calendarDays (dateItemsAt [1704196800000]) = [19724]
   \<and> selectedLayerDates app floodTwiceADay = [1704110400000, 1704196800000]
   \<and> toISODateString 1704110400000 = 19723
   \<and> isoDateText 19723 = ''2024-01-01'' \<and> isoDateText 19724 = ''2024-01-02''"
  by code_simp

text \<open>The day of the first selectable date there is not a day of storm.\<close>

theorem selectedLayerDates_repeated_day_witness:
  "hd (selectedLayerDates app floodTwiceADay) = 1704110400000
   \<and> toISODateString (hd (selectedLayerDates app floodTwiceADay))
       \<notin> set (calendarDays (snd (last (selectedLayersWithDateSupport app floodTwiceADay))))
   \<and> fst (last (selectedLayersWithDateSupport app floodTwiceADay)) = wmsLayer ''storm''"
  using selectedLayerDates_repeated_day by simp

text \<open>
  For every list of date-supporting layers in which no layer has two DateItems on the same
  calendar day, if a layer has no DateItem then no date is selectable.
\<close>

lemma selectedLayerDates_layer_without_dates:
  assumes one_per_day:
        "\<forall>(l, items) \<in> set (selectedLayersWithDateSupport c s). distinct (calendarDays items)"
      and no_dates: "(l, []) \<in> set (selectedLayersWithDateSupport c s)"
  shows "selectedLayerDates c s = []"
proof -
  let ?L = "selectedLayersWithDateSupport c s"
  have nonempty: "?L \<noteq> []" using no_dates by auto
  have d: "\<forall>p \<in> set ?L. distinct (calendarDays (snd p))"
    using one_per_day by auto
  have "\<not> (\<forall>p \<in> set ?L. day \<in> set (calendarDays (snd p)))" for day
    using no_dates by (force simp: calendarDays_def)
  then have "\<not> length ?L \<le> count_list (allCalendarDays ?L) day" for day
    by (simp add: count_allCalendarDays_distinct [OF d] filter_all_iff)
  then have "set (selectedLayerDates c s) = {}"
    by (simp add: set_selectedLayerDates [OF nonempty])
  then show ?thesis by simp
qed

lemma selectedLayerDates_layer_without_dates_example:
  "selectedLayersWithDateSupport app stormWithoutDates =
     [(wmsLayer ''flood'', dateItemsAt [1704110400000, 1704196800000]),
      (wmsLayer ''storm'', [])]
   \<and> calendarDays (dateItemsAt [1704110400000, 1704196800000]) = [19723, 19724]
   \<and> selectedLayerDates app stormWithoutDates = []"
proof -
  have layers: "selectedLayersWithDateSupport app stormWithoutDates =
     [(wmsLayer ''flood'', dateItemsAt [1704110400000, 1704196800000]),
      (wmsLayer ''storm'', [])]"
    by code_simp
  have flood: "calendarDays (dateItemsAt [1704110400000, 1704196800000]) = [19723, 19724]"
    by code_simp
  have one_per_day:
    "\<forall>(l, items) \<in> set (selectedLayersWithDateSupport app stormWithoutDates).
       distinct (calendarDays items)"
    by (simp add: layers flood) (simp add: calendarDays_def)
  have no_dates:
    "(wmsLayer ''storm'', []) \<in> set (selectedLayersWithDateSupport app stormWithoutDates)"
    by (simp add: layers)
  from selectedLayerDates_layer_without_dates [OF one_per_day no_dates]
  show ?thesis using layers flood by simp
qed

text \<open>
  Claim C2 says that no date is selectable when a date-supporting layer has no DateItem.
  The same counting breaks it: storm has no DateItem, and flood has two on the 1st of
  January 2024; that day is met twice, as many times as there are layers, and is
  selectable.
\<close>

theorem selectedLayerDates_repeated_day_empty_layer:
  "selectedLayersWithDateSupport app floodTwiceStormWithoutDates =
     [(wmsLayer ''flood'', dateItemsAt [1704096000000, 1704124800000]),
      (wmsLayer ''storm'', [])]
   \<and> calendarDays (dateItemsAt [1704096000000, 1704124800000]) = [19723, 19723]
   \<and> selectedLayerDates app floodTwiceStormWithoutDates = [1704110400000]
   \<and> toISODateString 1704110400000 = 19723
   \<and> isoDateText 19723 = ''2024-01-01''"
  by code_simp

text \<open>The last layer there has no DateItem, and the selectable dates are not empty.\<close>

theorem selectedLayerDates_repeated_day_empty_layer_witness:
  "last (selectedLayersWithDateSupport app floodTwiceStormWithoutDates)
     = (wmsLayer ''storm'', [])
   \<and> selectedLayerDates app floodTwiceStormWithoutDates \<noteq> []"
  using selectedLayerDates_repeated_day_empty_layer by simp

text \<open>
  Claim C7. Every timestamp of the selectable dates, and the date integer derived from the
  URL's date whenever it is a number, is at 12:00:00.000 UTC of its calendar day: it is
  left as it is by the normalization. A selectable date is on a day of a DateItem of the
  layers, and the date integer of a date that the URL names is on the UTC day of that date.
\<close>

theorem dates_are_midday_UTC:
  "(\<forall>t \<in> set (selectedLayerDates c s). isMiddayUTC t \<and> setUTCHours12 t = t) \<and>
   (\<forall>t \<in> set (selectedLayerDates c s).
      toISODateString t \<in> set (allCalendarDays (selectedLayersWithDateSupport c s))) \<and>
   (\<forall>d. dateInt c s = Some d \<longrightarrow> isMiddayUTC d \<and> setUTCHours12 d = d) \<and>
   (\<forall>d str. dateInt c s = Some d \<and> urlDate s = Some str \<and> str \<noteq> [] \<longrightarrow>
      (\<exists>t. newDate c str = Some t \<and> toISODateString d = toISODateString t))"
proof -
  have midday:
    "isMiddayUTC (setUTCHours12 t) \<and> setUTCHours12 (setUTCHours12 t) = setUTCHours12 t"
    for t
    by (simp add: isMiddayUTC_def setUTCHours12_def msPerDay_def)
  have same_day: "toISODateString (setUTCHours12 t) = toISODateString t" for t
    by (simp add: setUTCHours12_def toISODateString_def msPerDay_def)
  have "\<forall>t \<in> set (selectedLayerDates c s). \<exists>d. t = setUTCHours12 d"
    by (auto simp: selectedLayerDates_def)
  then have selectable:
    "\<forall>t \<in> set (selectedLayerDates c s). isMiddayUTC t \<and> setUTCHours12 t = t"
    using midday by metis
  have day_of_midday: "toISODateString (setUTCHours12 (newDateOfDayString k)) = k" for k
    by (simp add: setUTCHours12_def newDateOfDayString_def toISODateString_def msPerDay_def)
  have days: "\<forall>t \<in> set (selectedLayerDates c s).
      toISODateString t \<in> set (allCalendarDays (selectedLayersWithDateSupport c s))"
  proof (cases "selectedLayersWithDateSupport c s = []")
    case True
    then show ?thesis by (simp add: selectedLayerDates_def)
  next
    case False
    show ?thesis
      unfolding set_selectedLayerDates [OF False] by (auto simp: day_of_midday)
  qed
  have "\<forall>d. dateInt c s = Some d \<longrightarrow> (\<exists>t. d = setUTCHours12 t)"
    by (auto simp: dateInt_def)
  then have fromUrl: "\<forall>d. dateInt c s = Some d \<longrightarrow> isMiddayUTC d \<and> setUTCHours12 d = d"
    using midday by metis
  have named: "\<forall>d str. dateInt c s = Some d \<and> urlDate s = Some str \<and> str \<noteq> [] \<longrightarrow>
      (\<exists>t. newDate c str = Some t \<and> toISODateString d = toISODateString t)"
    by (auto simp: dateInt_def same_day)
  from selectable days fromUrl named show ?thesis by blast
qed

theorem dates_are_midday_UTC_witness:
  "selectedLayerDates app floodAndStorm = [1704196800000]
   \<and> isMiddayUTC 1704196800000
   \<and> urlDate floodAndStorm = Some ''2024-01-02''
   \<and> newDate app ''2024-01-02'' = Some 1704153600000
   \<and> dateInt app floodAndStorm = Some 1704196800000
   \<and> toISODateString 1704196800000 = toISODateString 1704153600000"
proof -
  have selectable: "selectedLayerDates app floodAndStorm = [1704196800000]"
    by code_simp
  have url: "urlDate floodAndStorm = Some ''2024-01-02''"
    by code_simp
  have parsed: "newDate app ''2024-01-02'' = Some 1704153600000"
    by code_simp
  have fromUrl: "dateInt app floodAndStorm = Some 1704196800000"
    by code_simp
  have written: "''2024-01-02'' \<noteq> []"
    by simp
  from dates_are_midday_UTC [of app floodAndStorm]
  have "isMiddayUTC 1704196800000"
    and "\<exists>t. newDate app ''2024-01-02'' = Some t
             \<and> toISODateString 1704196800000 = toISODateString t"
    using selectable fromUrl url written by auto
  then show ?thesis
    using selectable url parsed fromUrl by auto
qed

text \<open>
  Claim C8. When no active layer supports dates, the selectable dates are the empty
  sequence.
\<close>

theorem selectedLayerDates_no_layer:
  "selectedLayersWithDateSupport c s = [] \<Longrightarrow> selectedLayerDates c s = []"
  by (simp add: selectedLayerDates_def)

text \<open>A boundary layer does not support dates: with it alone no date is selectable.\<close>

theorem selectedLayerDates_no_layer_witness:
  "selectedLayers app boundaryOnly = [boundaryLayer ''admin_boundaries'']
   \<and> selectedLayersWithDateSupport app boundaryOnly = []
   \<and> selectedLayerDates app boundaryOnly = []"
proof -
  have selected: "selectedLayers app boundaryOnly = [boundaryLayer ''admin_boundaries'']"
    by code_simp
  have none: "selectedLayersWithDateSupport app boundaryOnly = []"
    by code_simp
  from selectedLayerDates_no_layer [OF none]
  show ?thesis using selected none by blast
qed

text \<open>
  Claim C9. The selectable dates hold no timestamp twice: the timestamps at two distinct
  positions differ.
\<close>

theorem selectedLayerDates_distinct:
  "distinct (selectedLayerDates c s)
   \<and> (\<forall>i j. i < j \<and> j < length (selectedLayerDates c s)
         \<longrightarrow> selectedLayerDates c s ! i \<noteq> selectedLayerDates c s ! j)"
proof -
  have distinct: "distinct (selectedLayerDates c s)"
  proof (cases "selectedLayersWithDateSupport c s = []")
    case True
    then show ?thesis by (simp add: selectedLayerDates_def)
  next
    case False
    have "distinct (Object_keys (pickBy (selectedLayerDatesDupCount c s)
            (\<lambda>dupTimes. dupTimes \<ge> length (selectedLayersWithDateSupport c s))))"
      by (simp add: dupCount_eq distinct_keys_pickBy distinct_keys_countBy)
    then show ?thesis
      using False inj_midday
      by (simp add: selectedLayerDates_def distinct_map inj_def inj_on_def)
  qed
  then show ?thesis
    by (auto simp: distinct_conv_nth)
qed

theorem selectedLayerDates_distinct_witness:
  "selectedLayerDates app floodTwiceADay = [1704110400000, 1704196800000]
   \<and> distinct (selectedLayerDates app floodTwiceADay)"
proof -
  have result: "selectedLayerDates app floodTwiceADay = [1704110400000, 1704196800000]"
    by code_simp
  from selectedLayerDates_distinct [of app floodTwiceADay]
  show ?thesis using result by blast
qed

section \<open>Layers whose dates do not overlap\<close>

text \<open>
  What the effect does when it acts: it goes by the position of the layers in the sorted
  list. The second-to-last layer is removed, the last one is kept, and the URL's date
  becomes the date of the kept layer closest to the selected date.
\<close>

lemma noOverlapEffect_by_position:
  assumes "selectedLayerDates c s = []"
      and "selectedLayersWithDateSupport c s \<noteq> []"
      and "selectedDate s = Some date" and "date \<noteq> 0"
      and "selectedLayers c s = before @ [layerToRemove, layerToKeep]"
  shows "noOverlapEffect c s =
     Inr [addNotification
            (''No dates overlap with the selected layers. Removing previous layer: ''
               @ layerId layerToRemove @ ''.'') warning,
          removeLayerFromUrl (getUrlKey c layerToRemove) (layerId layerToRemove),
          removeLayer layerToRemove,
          updateHistory dateParam
            (getFormattedDate c
              (findClosestDate c date
                (map displayDate
                  (getPossibleDatesForLayer c layerToKeep (serverAvailableDates s)))))]"
proof -
  have "at_index (selectedLayers c s) (int (length (selectedLayers c s)) - 2)
        = Some layerToRemove"
    using assms(5) by (simp add: at_index_def nth_append)
  moreover
  have "at_index (selectedLayers c s) (int (length (selectedLayers c s)) - 1)
        = Some layerToKeep"
    using assms(5) by (simp add: at_index_def nth_append)
  ultimately show ?thesis
    using assms(1-4) by (simp add: noOverlapEffect_def removeLayerAndUpdateHistory_def)
qed

text \<open>
  Claim C3 says that the effect removes the second-most-recently-added layer and keeps the
  most recently added one. The code does otherwise whenever the sort reorders the two: for
  two selected layers of which the sort puts the one added last first, with no selectable
  date, at least two layers with date support and a selected date, the effect removes the
  layer added last and keeps the older one; the URL's date becomes the date of the older
  layer closest to the selected date.
\<close>

theorem noOverlapEffect_removes_last_added:
  assumes store: "unsortedSelectedLayers s = [older, newer]"
      and reordered: "layerOrdering c older newer > 0"
      and no_overlap: "selectedLayerDates c s = []"
      and two: "length (selectedLayersWithDateSupport c s) \<ge> 2"
      and selected: "selectedDate s = Some date" "date \<noteq> 0"
  shows "selectedLayers c s = [newer, older]
       \<and> noOverlapEffect c s =
           Inr [addNotification
                  (''No dates overlap with the selected layers. Removing previous layer: ''
                     @ layerId newer @ ''.'') warning,
                removeLayerFromUrl (getUrlKey c newer) (layerId newer),
                removeLayer newer,
                updateHistory dateParam
                  (getFormattedDate c
                    (findClosestDate c date
                      (map displayDate
                        (getPossibleDatesForLayer c older (serverAvailableDates s)))))]"
proof -
  have sorted: "selectedLayers c s = [] @ [newer, older]"
    using store reordered by (simp add: selectedLayers_def sort_with_def)
  have some: "selectedLayersWithDateSupport c s \<noteq> []"
    using two by auto
  from noOverlapEffect_by_position [OF no_overlap some selected sorted] sorted
  show ?thesis by simp
qed

text \<open>
  So it is for flood, added first, and the point-data layer stations, added last, whose
  dates do not overlap: the sort puts stations first, and the effect removes stations and
  keeps flood.
\<close>

theorem noOverlapEffect_removes_last_added_witness:
  "unsortedSelectedLayers floodThenStations = [wmsLayer ''flood'', pointDataLayer ''stations'']
   \<and> layerOrdering app (wmsLayer ''flood'') (pointDataLayer ''stations'') = 1
   \<and> selectedLayerDates app floodThenStations = []
   \<and> length (selectedLayersWithDateSupport app floodThenStations) = 2
   \<and> selectedDate floodThenStations = Some 1704110400000
   \<and> selectedLayers app floodThenStations = [pointDataLayer ''stations'', wmsLayer ''flood'']
   \<and> noOverlapEffect app floodThenStations =
       Inr [addNotification
              ''No dates overlap with the selected layers. Removing previous layer: stations.''
              warning,
            removeLayerFromUrl HAZARD ''stations'',
            removeLayer (pointDataLayer ''stations''),
            updateHistory dateParam ''2024-01-01'']"
proof -
  have store:
    "unsortedSelectedLayers floodThenStations
     = [wmsLayer ''flood'', pointDataLayer ''stations'']"
    by code_simp
  have order: "layerOrdering app (wmsLayer ''flood'') (pointDataLayer ''stations'') = 1"
    by code_simp
  have reordered: "layerOrdering app (wmsLayer ''flood'') (pointDataLayer ''stations'') > 0"
    by (simp add: order)
  have no_overlap: "selectedLayerDates app floodThenStations = []"
    by code_simp
  have two: "length (selectedLayersWithDateSupport app floodThenStations) = 2"
    by code_simp
  have at_least: "length (selectedLayersWithDateSupport app floodThenStations) \<ge> 2"
    by (simp add: two)
  have selected: "selectedDate floodThenStations = Some 1704110400000"
    by code_simp
  have nonzero: "(1704110400000::int) \<noteq> 0"
    by simp
  have key: "getUrlKey app (pointDataLayer ''stations'') = HAZARD"
    by code_simp
  have name: "layerId (pointDataLayer ''stations'') = ''stations''"
    by code_simp
  have closest:
    "getFormattedDate app
       (findClosestDate app 1704110400000
         (map displayDate
           (getPossibleDatesForLayer app (wmsLayer ''flood'')
             (serverAvailableDates floodThenStations))))
     = ''2024-01-01''"
    by code_simp
  from noOverlapEffect_removes_last_added
         [OF store reordered no_overlap at_least selected nonzero]
  show ?thesis
    using store order no_overlap two selected
    by (simp add: key name closest)
qed

section \<open>A selected date that a layer does not have\<close>

lemma concat_map_skip:
  "concat (map (\<lambda>x. if skip x then [] else act x) xs)
   = concat (map act (filter (\<lambda>x. \<not> skip x) xs))"
  by (induction xs) simp_all

lemma isNotification_snapAndNotify:
  "filter isNotification (snapAndNotify c s date layer) = [noDataNotification c s date layer]"
  by (simp add: snapAndNotify_def noDataNotification_def closestSelectableDate_def Let_def)

lemma notifications_of_loop:
  "filter isNotification (concat (map (snapAndNotify c s date) layers))
   = map (noDataNotification c s date) layers"
  by (induction layers) (simp_all add: isNotification_snapAndNotify)

lemma updates_of_snapAndNotify:
  "filter (\<lambda>e. \<not> isNotification e) (snapAndNotify c s date layer) =
     (if datesAreEqualWithoutTime c (setUTCHours12 date) (closestSelectableDate c s date)
      then []
      else [updateHistory dateParam (getFormattedDate c (closestSelectableDate c s date))])"
  by (simp add: snapAndNotify_def closestSelectableDate_def Let_def)

lemma updates_of_loop:
  "filter (\<lambda>e. \<not> isNotification e) (concat (map (snapAndNotify c s date) layers)) =
     (if datesAreEqualWithoutTime c (setUTCHours12 date) (closestSelectableDate c s date)
      then []
      else replicate (length layers)
             (updateHistory dateParam (getFormattedDate c (closestSelectableDate c s date))))"
  by (induction layers) (simp_all add: updates_of_snapAndNotify)

text \<open>The effect, once its guard is passed and the server's dates are there.\<close>

lemma closestDateEffect_loop:
  assumes "selectedDate s = Some date" and "date \<noteq> 0"
      and "urlDate s = Some str" and "str \<noteq> []"
      and "\<not> strictEquals (getTimeInMilliseconds c str) (Some date)"
      and "\<not> serverAvailableDatesAreEmpty s"
  shows "closestDateEffect c s =
     concat (map (snapAndNotify c s date)
       (filter (lacksSelectedDate c s date) (selectedLayersWithDateSupport c s)))"
proof -
  have "closestDateEffect c s
        = concat (map (closestDateStep c s date) (selectedLayersWithDateSupport c s))"
    using assms(1-5) by (simp add: closestDateEffect_def)
  also have "closestDateStep c s date =
      (\<lambda>layer. if \<not> lacksSelectedDate c s date layer then []
               else snapAndNotify c s date layer)"
    using assms(6) by (auto simp: closestDateStep_def lacksSelectedDate_def fun_eq_iff)
  finally show ?thesis
    by (simp add: concat_map_skip)
qed

text \<open>
  Claim C4, as the code has it. When a date is selected, the URL holds a date whose time
  differs from it, and the server's dates are populated, the layers with date support are
  processed in their order and every layer that lacks the selected date triggers the action:
  the URL's date is replaced by the selectable date closest to the selected one (unless
  that is the selected day) and a notification is dispatched for that layer. So there is
  one notification for each such layer, in the order of the layers, and unless the closest
  date is the selected day there is one update of the URL's date for each such layer, all
  to the same date.
\<close>

theorem closestDateEffect_every_layer:
  assumes "selectedDate s = Some date" and "date \<noteq> 0"
      and "urlDate s = Some str" and "str \<noteq> []"
      and "\<not> strictEquals (getTimeInMilliseconds c str) (Some date)"
      and "\<not> serverAvailableDatesAreEmpty s"
  shows "closestDateEffect c s =
           concat (map (snapAndNotify c s date)
             (filter (lacksSelectedDate c s date) (selectedLayersWithDateSupport c s)))
       \<and> filter isNotification (closestDateEffect c s) =
           map (noDataNotification c s date)
             (filter (lacksSelectedDate c s date) (selectedLayersWithDateSupport c s))
       \<and> filter (\<lambda>e. \<not> isNotification e) (closestDateEffect c s) =
           (if datesAreEqualWithoutTime c (setUTCHours12 date) (closestSelectableDate c s date)
            then []
            else replicate
                   (length (filter (lacksSelectedDate c s date)
                              (selectedLayersWithDateSupport c s)))
                   (updateHistory dateParam
                      (getFormattedDate c (closestSelectableDate c s date))))"
  by (simp only: closestDateEffect_loop [OF assms] notifications_of_loop updates_of_loop
      simp_thms)

theorem closestDateEffect_every_layer_witness:
  "selectedDate fifthOfJanuary = Some 1704456000000
   \<and> urlDate fifthOfJanuary = Some ''2024-01-05''
   \<and> getTimeInMilliseconds app ''2024-01-05'' = Some 1704412800000
   \<and> serverAvailableDates fifthOfJanuary \<noteq> []
   \<and> filter (lacksSelectedDate app fifthOfJanuary 1704456000000)
         (selectedLayersWithDateSupport app fifthOfJanuary)
       = selectedLayersWithDateSupport app fifthOfJanuary
   \<and> length (selectedLayersWithDateSupport app fifthOfJanuary) = 2
   \<and> length (filter isNotification (closestDateEffect app fifthOfJanuary)) = 2"
proof -
  have date: "selectedDate fifthOfJanuary = Some 1704456000000"
    by code_simp
  have url: "urlDate fifthOfJanuary = Some ''2024-01-05''"
    by code_simp
  have time: "getTimeInMilliseconds app ''2024-01-05'' = Some 1704412800000"
    by code_simp
  have differ:
    "\<not> strictEquals (getTimeInMilliseconds app ''2024-01-05'') (Some 1704456000000)"
    by (simp add: time)
  have table: "serverAvailableDates fifthOfJanuary \<noteq> []"
    by code_simp
  have populated: "\<not> serverAvailableDatesAreEmpty fifthOfJanuary"
    using table by (simp add: serverAvailableDatesAreEmpty_def Object_keys_def)
  have lacking:
    "filter (lacksSelectedDate app fifthOfJanuary 1704456000000)
       (selectedLayersWithDateSupport app fifthOfJanuary)
     = selectedLayersWithDateSupport app fifthOfJanuary"
    by code_simp
  have two: "length (selectedLayersWithDateSupport app fifthOfJanuary) = 2"
    by code_simp
  have nonzero: "(1704456000000::int) \<noteq> 0" and written: "''2024-01-05'' \<noteq> []"
    by simp_all
  from closestDateEffect_every_layer [OF date nonzero url written differ populated]
  have "filter isNotification (closestDateEffect app fifthOfJanuary) =
          map (noDataNotification app fifthOfJanuary 1704456000000)
            (selectedLayersWithDateSupport app fifthOfJanuary)"
    unfolding lacking by blast
  then have "length (filter isNotification (closestDateEffect app fifthOfJanuary)) = 2"
    by (simp add: two)
  then show ?thesis
    using date url time table lacking two by simp
qed

text \<open>
  Claim C4 as stated fails. Flood and storm both lack the selected 5th of January: the
  action is triggered for flood, the first of them, and for storm as well. With the same
  layers and dates and no date in the URL, it is triggered for neither.
\<close>

theorem closestDateEffect_second_layer_counterexample:
  "map fst (selectedLayersWithDateSupport app fifthOfJanuary)
     = [wmsLayer ''flood'', wmsLayer ''storm'']
   \<and> selectedLayerDates app fifthOfJanuary = [1704110400000, 1704888000000]
   \<and> closestDateEffect app fifthOfJanuary =
       [updateHistory dateParam ''2024-01-01'',
        addNotification (noDataMessage ''flood'' ''2024-01-05'' ''2024-01-01'') warning,
        updateHistory dateParam ''2024-01-01'',
        addNotification (noDataMessage ''storm'' ''2024-01-05'' ''2024-01-01'') warning]
   \<and> selectedDate fifthOfJanuaryNoUrlDate = Some 1704456000000
   \<and> serverAvailableDates fifthOfJanuaryNoUrlDate = serverAvailableDates fifthOfJanuary
   \<and> urlDate fifthOfJanuaryNoUrlDate = None
   \<and> closestDateEffect app fifthOfJanuaryNoUrlDate = []"
  by code_simp

text \<open>
  Claim C10. In the step for a layer that lacks the selected date, when the closest date
  falls on the selected calendar day, the URL's date is not updated and the notification
  for the layer is still dispatched. The whole effect then updates nothing in the URL, and
  when it acts it consists of the notifications, one for each layer that lacks the selected
  date.
\<close>

theorem closestDateEffect_same_day:
  assumes selected: "selectedDate s = Some date"
      and same_day:
        "datesAreEqualWithoutTime c (setUTCHours12 date) (closestSelectableDate c s date)"
  shows "(\<not> serverAvailableDatesAreEmpty s \<and> lacksSelectedDate c s date layer \<longrightarrow>
            closestDateStep c s date layer = [noDataNotification c s date layer])
       \<and> (\<forall>e \<in> set (closestDateEffect c s). \<forall>key v. e \<noteq> updateHistory key v)
       \<and> (date \<noteq> 0 \<and> urlDate s = Some str \<and> str \<noteq> []
            \<and> \<not> strictEquals (getTimeInMilliseconds c str) (Some date)
            \<and> \<not> serverAvailableDatesAreEmpty s \<longrightarrow>
          closestDateEffect c s =
            map (noDataNotification c s date)
              (filter (lacksSelectedDate c s date) (selectedLayersWithDateSupport c s)))"
proof -
  have act: "snapAndNotify c s date l = [noDataNotification c s date l]" for l
    using same_day
    by (simp add: snapAndNotify_def noDataNotification_def closestSelectableDate_def Let_def)
  have step: "\<not> serverAvailableDatesAreEmpty s \<and> lacksSelectedDate c s date layer \<longrightarrow>
      closestDateStep c s date layer = [noDataNotification c s date layer]"
    by (simp add: closestDateStep_def lacksSelectedDate_def act)
  have quiet: "\<forall>e \<in> set (closestDateStep c s date l). \<forall>key v. e \<noteq> updateHistory key v"
    for l
    by (simp add: closestDateStep_def act noDataNotification_def)
  have "closestDateEffect c s = []
        \<or> closestDateEffect c s
            = concat (map (closestDateStep c s date) (selectedLayersWithDateSupport c s))"
    using selected by (simp add: closestDateEffect_def split: option.splits)
  then have no_update:
    "\<forall>e \<in> set (closestDateEffect c s). \<forall>key v. e \<noteq> updateHistory key v"
  proof
    assume "closestDateEffect c s = []"
    then show ?thesis by simp
  next
    assume "closestDateEffect c s
            = concat (map (closestDateStep c s date) (selectedLayersWithDateSupport c s))"
    then have "\<forall>e \<in> set (closestDateEffect c s).
        \<exists>l. e \<in> set (closestDateStep c s date l)"
      by auto
    then show ?thesis using quiet by blast
  qed
  have loop: "concat (map (snapAndNotify c s date) layers)
        = map (noDataNotification c s date) layers" for layers
    by (induction layers) (simp_all add: act)
  have effect: "date \<noteq> 0 \<and> urlDate s = Some str \<and> str \<noteq> []
            \<and> \<not> strictEquals (getTimeInMilliseconds c str) (Some date)
            \<and> \<not> serverAvailableDatesAreEmpty s \<longrightarrow>
      closestDateEffect c s =
        map (noDataNotification c s date)
          (filter (lacksSelectedDate c s date) (selectedLayersWithDateSupport c s))"
    using closestDateEffect_loop [OF selected, of str c] by (simp add: loop)
  from step no_update effect show ?thesis by blast
qed

text \<open>
  Flood has the selected 1st of January 2024 and storm lacks it; the selectable dates are
  the 1st and the 2nd, and the closest of them is the selected day itself. The URL's date
  is left as it is, and the notification for storm is dispatched.
\<close>

theorem closestDateEffect_same_day_witness:
  "selectedDate firstOfJanuaryFloodTwice = Some 1704110400000
   \<and> urlDate firstOfJanuaryFloodTwice = Some ''2024-01-01''
   \<and> getTimeInMilliseconds app ''2024-01-01'' = Some 1704067200000
   \<and> serverAvailableDates firstOfJanuaryFloodTwice =
       [(''flood'', dateItemsAt [1704096000000, 1704124800000, 1704196800000]),
        (''storm'', dateItemsAt [1704196800000])]
   \<and> selectedLayerDates app firstOfJanuaryFloodTwice = [1704110400000, 1704196800000]
   \<and> closestSelectableDate app firstOfJanuaryFloodTwice 1704110400000 = 1704110400000
   \<and> datesAreEqualWithoutTime app (setUTCHours12 1704110400000) 1704110400000
   \<and> filter (lacksSelectedDate app firstOfJanuaryFloodTwice 1704110400000)
         (selectedLayersWithDateSupport app firstOfJanuaryFloodTwice)
       = [(wmsLayer ''storm'', dateItemsAt [1704196800000])]
   \<and> closestDateEffect app firstOfJanuaryFloodTwice =
       [addNotification (noDataMessage ''storm'' ''2024-01-01'' ''2024-01-01'') warning]"
proof -
  have date: "selectedDate firstOfJanuaryFloodTwice = Some 1704110400000"
    by code_simp
  have url: "urlDate firstOfJanuaryFloodTwice = Some ''2024-01-01''"
    by code_simp
  have time: "getTimeInMilliseconds app ''2024-01-01'' = Some 1704067200000"
    by code_simp
  have differ:
    "\<not> strictEquals (getTimeInMilliseconds app ''2024-01-01'') (Some 1704110400000)"
    by (simp add: time)
  have table: "serverAvailableDates firstOfJanuaryFloodTwice =
       [(''flood'', dateItemsAt [1704096000000, 1704124800000, 1704196800000]),
        (''storm'', dateItemsAt [1704196800000])]"
    by code_simp
  have populated: "\<not> serverAvailableDatesAreEmpty firstOfJanuaryFloodTwice"
    by (simp add: table serverAvailableDatesAreEmpty_def Object_keys_def)
  have selectable:
    "selectedLayerDates app firstOfJanuaryFloodTwice = [1704110400000, 1704196800000]"
    by code_simp
  have closest:
    "closestSelectableDate app firstOfJanuaryFloodTwice 1704110400000 = 1704110400000"
    by code_simp
  have same: "datesAreEqualWithoutTime app (setUTCHours12 1704110400000) 1704110400000"
    by code_simp
  have lacking:
    "filter (lacksSelectedDate app firstOfJanuaryFloodTwice 1704110400000)
       (selectedLayersWithDateSupport app firstOfJanuaryFloodTwice)
     = [(wmsLayer ''storm'', dateItemsAt [1704196800000])]"
    by code_simp
  have notification:
    "noDataNotification app firstOfJanuaryFloodTwice 1704110400000
       (wmsLayer ''storm'', dateItemsAt [1704196800000])
     = addNotification (noDataMessage ''storm'' ''2024-01-01'' ''2024-01-01'') warning"
    by code_simp
  have nonzero: "(1704110400000::int) \<noteq> 0" and written: "''2024-01-01'' \<noteq> []"
    by simp_all
  have same_day:
    "datesAreEqualWithoutTime app (setUTCHours12 1704110400000)
       (closestSelectableDate app firstOfJanuaryFloodTwice 1704110400000)"
    using same by (simp add: closest)
  from closestDateEffect_same_day [OF date same_day, of undefined "''2024-01-01''"]
  have "closestDateEffect app firstOfJanuaryFloodTwice =
       map (noDataNotification app firstOfJanuaryFloodTwice 1704110400000)
         [(wmsLayer ''storm'', dateItemsAt [1704196800000])]"
    unfolding lacking using nonzero url written differ populated by blast
  then have effect: "closestDateEffect app firstOfJanuaryFloodTwice =
       [addNotification (noDataMessage ''storm'' ''2024-01-01'' ''2024-01-01'') warning]"
    by (simp add: notification)
  show ?thesis
    using date url time table selectable closest same lacking effect by simp
qed

section \<open>Layer ids and dates of the URL that are not valid\<close>

text \<open>
  Claim C5, as the code has it. A layer id of the URL that the registry lacks is an invalid
  id, and the effect then adds no layer; once the URL's hazard or baseline list is a
  non-empty string and the server's table of dates is not empty, the effect is one error
  notification that lists the invalid ids.
\<close>

theorem urlEffect_invalid_layer:
  assumes "layerKey \<in> set (urlLayerIds s)" and "layerKey \<notin> set (layerDefinitionIds c)"
  shows "layerKey \<in> set (invalidLayersIds c s)
       \<and> (\<forall>e \<in> set (urlEffect c s). \<forall>l. e \<noteq> addLayer l)
       \<and> ((truthyString (hazardLayerIds s) \<or> truthyString (baselineLayerIds s))
            \<and> \<not> serverAvailableDatesAreEmpty s
           \<longrightarrow> urlEffect c s =
                 [addNotification
                    (''Invalid layer identifier(s): '' @ join_comma (invalidLayersIds c s))
                    error])"
proof -
  have invalid: "layerKey \<in> set (invalidLayersIds c s)"
    using assms by (simp add: invalidLayersIds_def)
  then have some: "length (invalidLayersIds c s) > 0"
    by (cases "invalidLayersIds c s") auto
  show ?thesis
    using invalid some by (simp add: urlEffect_def)
qed

theorem urlEffect_invalid_layer_witness:
  "urlLayerIds bogusLayerInUrl = [''flood'', ''bogus'']
   \<and> layerDefinitionIds app = [''flood'', ''storm'', ''stations'', ''admin_boundaries'']
   \<and> hazardLayerIds bogusLayerInUrl = Some ''flood,bogus''
   \<and> serverAvailableDates bogusLayerInUrl \<noteq> []
   \<and> invalidLayersIds app bogusLayerInUrl = [''bogus'']
   \<and> urlEffect app bogusLayerInUrl
       = [addNotification ''Invalid layer identifier(s): bogus'' error]"
proof -
  have url: "urlLayerIds bogusLayerInUrl = [''flood'', ''bogus'']"
    by code_simp
  have known:
    "layerDefinitionIds app = [''flood'', ''storm'', ''stations'', ''admin_boundaries'']"
    by code_simp
  have hazard: "hazardLayerIds bogusLayerInUrl = Some ''flood,bogus''"
    by code_simp
  have table: "serverAvailableDates bogusLayerInUrl \<noteq> []"
    by code_simp
  have invalid: "invalidLayersIds app bogusLayerInUrl = [''bogus'']"
    by code_simp
  have inUrl: "''bogus'' \<in> set (urlLayerIds bogusLayerInUrl)"
    by (simp add: url)
  have unknown: "''bogus'' \<notin> set (layerDefinitionIds app)"
    by (simp add: known)
  have gate: "(truthyString (hazardLayerIds bogusLayerInUrl)
               \<or> truthyString (baselineLayerIds bogusLayerInUrl))
              \<and> \<not> serverAvailableDatesAreEmpty bogusLayerInUrl"
    using table by (simp add: hazard serverAvailableDatesAreEmpty_def Object_keys_def)
  from urlEffect_invalid_layer [OF inUrl unknown] gate
  have "urlEffect app bogusLayerInUrl
        = [addNotification ''Invalid layer identifier(s): bogus'' error]"
    by (simp add: invalid)
  then show ?thesis
    using url known hazard table invalid by simp
qed

text \<open>
  Claim C5 as stated fails. The URL names the layer bogus, which the registry lacks, but
  the server's table of dates is still empty: nothing is dispatched. Nothing is dispatched
  either for the empty layer id of an empty hazard list.
\<close>

theorem urlEffect_invalid_layer_counterexample:
  "urlLayerIds bogusLayerInUrlNoServerDates = [''flood'', ''bogus'']
   \<and> layerDefinitionIds app = [''flood'', ''storm'', ''stations'', ''admin_boundaries'']
   \<and> serverAvailableDates bogusLayerInUrlNoServerDates = []
   \<and> urlEffect app bogusLayerInUrlNoServerDates = []
   \<and> urlLayerIds emptyLayerListInUrl = [[]]
   \<and> serverAvailableDates emptyLayerListInUrl = [(''flood'', dateItemsAt [1704110400000])]
   \<and> urlEffect app emptyLayerListInUrl = []"
  by code_simp




end
